theory Spec2Isabelle
  imports Main
begin

section \<open>TaskFlow: the task collection of \<open>modern_task_app.py\<close>\<close>

text \<open>
  The application keeps its tasks in the instance field \<open>self.tasks\<close>, a list of
  dictionaries, and writes the whole list to \<open>tasks.json\<close> after every change. The
  callbacks of the dialogs and buttons (\<open>add_task\<close>, \<open>save_changes\<close> inside
  \<open>edit_task\<close>, \<open>toggle_task_status\<close>, \<open>delete_task\<close>, \<open>filter_tasks\<close>,
  \<open>load_tasks\<close>, \<open>save_tasks\<close>) and the due-date branch of \<open>create_task_card\<close> are
  embedded here as functions on an explicit state; the widgets are left out.
\<close>

subsection \<open>Data\<close>

text \<open>
  The radio buttons of both dialogs offer \<open>"low"\<close>, \<open>"medium"\<close>, \<open>"high"\<close>; the
  status is written as \<open>'pending'\<close> or \<open>'completed'\<close>.
\<close>

datatype priority = Low | Medium | High

datatype status = Pending | Completed

text \<open>
  An instant as \<open>datetime.now()\<close> returns it: the calendar date as a day number and the
  time of day in microseconds since midnight (below \<open>86400000000\<close>). A \<open>"%Y-%m-%d"\<close>
  string is modelled by the day number it denotes.
\<close>

record datetime =
  dt_day :: int
  dt_usec :: nat

text \<open>
  One dictionary of \<open>self.tasks\<close>. The key \<open>'description'\<close> is read with
  \<open>t.get('description', '')\<close>, so it may be absent (in a file written by hand).
\<close>

record task =
  task_id :: int
  title :: string
  description :: "string option"
  priority :: priority
  status :: status
  created_at :: datetime
  due_date :: int

definition get_description :: "task \<Rightarrow> string" where
  "get_description t = (case description t of None \<Rightarrow> [] | Some d \<Rightarrow> d)"

text \<open>
  The file \<open>tasks.json\<close>: absent, present but not openable, present with text that
  \<open>json.load\<close> rejects, or present with the list that \<open>json.dump\<close> wrote.
\<close>

datatype file_state = NoFile | Unreadable | Malformed | Stored "task list"

record app =
  tasks :: "task list"
  tasks_file :: file_state

text \<open>
  How a callback ends: with a warning box and an early return (\<open>ValidationError\<close>), with
  the silent early return of \<open>edit_task\<close> on an id it does not find
  (\<open>NotFoundError\<close>), with the user declining the confirmation box (\<open>Cancelled\<close>),
  or (\<open>Inr\<close>) with the message it hands to \<open>show_notification\<close>.
\<close>

datatype error = ValidationError | NotFoundError | Cancelled

type_synonym result = "error + string"

subsection \<open>Strings: \<open>strip\<close>, \<open>lower\<close>, \<open>in\<close>\<close>

text \<open>
  A \<open>char\<close> stands for one code point below 256. \<open>is_space\<close> is \<open>str.isspace\<close> and
  \<open>lower_char\<close> is \<open>str.lower\<close> on that range.
\<close>

definition is_space :: "char \<Rightarrow> bool" where
  "is_space c =
     (let n = (of_char c :: nat)
      in (9 \<le> n \<and> n \<le> 13) \<or> (28 \<le> n \<and> n \<le> 32) \<or> n = 133 \<or> n = 160)"

definition strip :: "string \<Rightarrow> string" where
  "strip s = rev (dropWhile is_space (rev (dropWhile is_space s)))"

definition lower_char :: "char \<Rightarrow> char" where
  "lower_char c =
     (let n = (of_char c :: nat)
      in if (65 \<le> n \<and> n \<le> 90) \<or> (192 \<le> n \<and> n \<le> 214) \<or> (216 \<le> n \<and> n \<le> 222)
         then char_of (n + 32) else c)"

definition lower :: "string \<Rightarrow> string" where
  "lower s = map lower_char s"

fun starts_with :: "string \<Rightarrow> string \<Rightarrow> bool" where
  "starts_with [] hay = True"
| "starts_with (x # xs) [] = False"
| "starts_with (x # xs) (y # ys) = (x = y \<and> starts_with xs ys)"

text \<open>\<open>is_substring needle hay\<close> is Python's \<open>needle in hay\<close> on strings.\<close>

fun is_substring :: "string \<Rightarrow> string \<Rightarrow> bool" where
  "is_substring needle [] = (needle = [])"
| "is_substring needle (h # hs) = (starts_with needle (h # hs) \<or> is_substring needle hs)"

subsection \<open>\<open>load_tasks\<close> and \<open>save_tasks\<close>\<close>

datatype exn = FileNotFoundError | PermissionError | JSONDecodeError

definition os_path_exists :: "file_state \<Rightarrow> bool" where
  "os_path_exists f = (f \<noteq> NoFile)"

text \<open>The body of the \<open>try\<close>: \<open>with open(self.tasks_file, 'r') as f: return json.load(f)\<close>.\<close>

definition json_load :: "file_state \<Rightarrow> exn + task list" where
  "json_load f =
     (case f of
        NoFile \<Rightarrow> Inl FileNotFoundError
      | Unreadable \<Rightarrow> Inl PermissionError
      | Malformed \<Rightarrow> Inl JSONDecodeError
      | Stored ts \<Rightarrow> Inr ts)"

text \<open>
  \<open>load_tasks\<close>: the bare \<open>except:\<close> turns every exception of the body into \<open>[]\<close>.
  \<open>Inl\<close> would be an exception that reaches the caller.
\<close>

definition load_tasks :: "file_state \<Rightarrow> exn + task list" where
  "load_tasks f =
     (if os_path_exists f
      then (case json_load f of Inr ts \<Rightarrow> Inr ts | Inl e \<Rightarrow> Inr [])
      else Inr [])"

text \<open>
  \<open>save_tasks\<close> opens the file for writing and dumps \<open>self.tasks\<close>. The write is taken
  to succeed: the source has no handler around it.
\<close>

definition save_tasks :: "app \<Rightarrow> app" where
  "save_tasks s = s\<lparr>tasks_file := Stored (tasks s)\<rparr>"

subsection \<open>The callbacks that change \<open>self.tasks\<close>\<close>

text \<open>
  Each of them ends by recomputing the displayed view (\<open>filter_tasks\<close>, below) and the
  statistics labels; neither touches \<open>self.tasks\<close> or the file.

  \<open>add_task\<close> of \<open>show_add_task_dialog\<close>: the entry fields, the chosen priority and the
  clock are its inputs. The callback is taken to run at one instant \<open>now\<close>: both
  \<open>datetime.now()\<close> of the dictionary literal return it.
\<close>

definition add_task :: "string \<Rightarrow> string \<Rightarrow> priority \<Rightarrow> datetime \<Rightarrow> app \<Rightarrow> result \<times> app" where
  "add_task title_entry desc_text priority_var now s =
     (let ttl = strip title_entry;
          dsc = strip desc_text
      in if ttl = [] then (Inl ValidationError, s)
         else
           (let t = \<lparr>task_id = int (length (tasks s)) + 1,
                     title = ttl,
                     description = Some dsc,
                     priority = priority_var,
                     status = Pending,
                     created_at = now,
                     due_date = dt_day now + 7\<rparr>
            in (Inr ''Task added successfully!'', save_tasks (s\<lparr>tasks := tasks s @ [t]\<rparr>))))"

text \<open>
  The first dictionary with the given id is the one a \<open>for ... break\<close> loop or
  \<open>next(...)\<close> reaches; \<open>modify_first\<close> changes it in place.
\<close>

fun modify_first :: "int \<Rightarrow> (task \<Rightarrow> task) \<Rightarrow> task list \<Rightarrow> task list" where
  "modify_first tid f [] = []"
| "modify_first tid f (t # ts) =
     (if task_id t = tid then f t # ts else t # modify_first tid f ts)"

definition toggle_task_status :: "int \<Rightarrow> bool \<Rightarrow> app \<Rightarrow> result \<times> app" where
  "toggle_task_status tid completed s =
     (let s1 = s\<lparr>tasks :=
                 modify_first tid (\<lambda>t. t\<lparr>status := (if completed then Completed else Pending)\<rparr>)
                   (tasks s)\<rparr>
      in (Inr (''Task '' @ (if completed then ''completed'' else ''reopened'') @ ''!''),
          save_tasks s1))"

text \<open>
  \<open>edit_task\<close> with the \<open>save_changes\<close> callback of its dialog: the three fields are
  assigned to the dictionary before the title is checked.
\<close>

definition edit_task :: "int \<Rightarrow> string \<Rightarrow> string \<Rightarrow> priority \<Rightarrow> app \<Rightarrow> result \<times> app" where
  "edit_task tid title_entry desc_text priority_var s =
     (case find (\<lambda>t. task_id t = tid) (tasks s) of
        None \<Rightarrow> (Inl NotFoundError, s)
      | Some found \<Rightarrow>
          (let s1 = s\<lparr>tasks :=
                      modify_first tid
                        (\<lambda>t. t\<lparr>title := strip title_entry,
                                description := Some (strip desc_text),
                                priority := priority_var\<rparr>)
                        (tasks s)\<rparr>
           in if strip title_entry = [] then (Inl ValidationError, s1)
              else (Inr ''Task updated successfully!'', save_tasks s1)))"

text \<open>\<open>delete_task\<close>; \<open>confirmed\<close> is the answer to \<open>messagebox.askyesno\<close>.\<close>

definition delete_task :: "int \<Rightarrow> bool \<Rightarrow> app \<Rightarrow> result \<times> app" where
  "delete_task tid confirmed s =
     (if confirmed
      then (Inr ''Task deleted!'', save_tasks (s\<lparr>tasks := [t \<leftarrow> tasks s. task_id t \<noteq> tid]\<rparr>))
      else (Inl Cancelled, s))"

text \<open>Sequences of additions and deletions, from the state of a first start.\<close>

datatype command = Add string string priority | Delete int

fun exec :: "datetime \<Rightarrow> app \<Rightarrow> command \<Rightarrow> app" where
  "exec now s (Add ttl dsc p) = snd (add_task ttl dsc p now s)"
| "exec now s (Delete tid) = snd (delete_task tid True s)"

definition fresh_app :: app where
  "fresh_app = \<lparr>tasks = [], tasks_file = NoFile\<rparr>"

definition run :: "datetime \<Rightarrow> command list \<Rightarrow> app" where
  "run now cs = foldl (exec now) fresh_app cs"

subsection \<open>\<open>filter_tasks\<close>\<close>

text \<open>The five filter buttons: \<open>'all'\<close>, \<open>'pending'\<close>, \<open>'completed'\<close>, \<open>'high'\<close>, \<open>'today'\<close>.\<close>

datatype filter_type = F_all | F_pending | F_completed | F_high | F_today

text \<open>
  The value \<open>filter_tasks\<close> assigns to \<open>self.filtered_tasks\<close>, from the filter, the
  content of the search box, the clock and \<open>self.tasks\<close>.
\<close>

definition filter_tasks :: "filter_type \<Rightarrow> string \<Rightarrow> datetime \<Rightarrow> task list \<Rightarrow> task list" where
  "filter_tasks ft search_var now ts =
     (let filtered_tasks =
            (case ft of
               F_all \<Rightarrow> ts
             | F_pending \<Rightarrow> [t \<leftarrow> ts. status t = Pending]
             | F_completed \<Rightarrow> [t \<leftarrow> ts. status t = Completed]
             | F_high \<Rightarrow> [t \<leftarrow> ts. priority t = High]
             | F_today \<Rightarrow> [t \<leftarrow> ts. due_date t = dt_day now])
      in if search_var \<noteq> []
         then (let search_term = lower search_var
               in [t \<leftarrow> filtered_tasks.
                     is_substring search_term (lower (title t)) \<or>
                     is_substring search_term (lower (get_description t))])
         else filtered_tasks)"

subsection \<open>The due-date line of \<open>create_task_card\<close>\<close>

text \<open>
  \<open>strptime\<close> gives midnight of the due date; \<open>.days\<close> of the difference to
  \<open>datetime.now()\<close> is its floor in whole days.
\<close>

definition days_until :: "task \<Rightarrow> datetime \<Rightarrow> int" where
  "days_until t now =
     (due_date t * 86400000000 - (dt_day now * 86400000000 + int (dt_usec now)))
       div 86400000000"

datatype due_note = Overdue_by int | Today_note | In_days int

datatype colour = Danger | Warning | Text_secondary

definition due_line :: "task \<Rightarrow> datetime \<Rightarrow> due_note \<times> colour" where
  "due_line t now =
     (let d = days_until t now
      in if d < 0 then (Overdue_by \<bar>d\<bar>, Danger)
         else if d = 0 then (Today_note, Warning)
         else if d \<le> 3 then (In_days d, Warning)
         else (In_days d, Text_secondary))"

subsection \<open>The specification's \<open>filter\<close> and \<open>search\<close>\<close>

text \<open>
  Written from the specification's words, to be compared with \<open>filter_tasks\<close>.
  "Case-insensitive substring match": the lowered text contains the lowered needle.
\<close>

definition ci_contains :: "string \<Rightarrow> string \<Rightarrow> bool" where
  "ci_contains needle s = (\<exists>pre post. lower s = pre @ lower needle @ post)"

text \<open>
  \<open>search(term, tasks)\<close>: "case-insensitive substring match against title OR
  description; empty term is the identity transform".
\<close>

definition search_spec :: "string \<Rightarrow> task list \<Rightarrow> task list" where
  "search_spec needle ts =
     (if needle = [] then ts
      else [t \<leftarrow> ts. ci_contains needle (title t) \<or> ci_contains needle (get_description t)])"

text \<open>
  \<open>filter(kind, tasks)\<close>: a pure projection by kind; "dueToday" compares the due date
  with the current calendar date for equality.
\<close>

definition filter_spec :: "filter_type \<Rightarrow> int \<Rightarrow> task list \<Rightarrow> task list" where
  "filter_spec kind today ts =
     [t \<leftarrow> ts. (case kind of
                   F_all \<Rightarrow> True
                 | F_pending \<Rightarrow> status t = Pending
                 | F_completed \<Rightarrow> status t = Completed
                 | F_high \<Rightarrow> priority t = High
                 | F_today \<Rightarrow> due_date t = today)]"

subsection \<open>Sample data\<close>

text \<open>Day 19732 at 12:00, and a task created a week before that is due on that day.\<close>

definition noon :: datetime where
  "noon = \<lparr>dt_day = 19732, dt_usec = 43200000000\<rparr>"

definition buy_milk :: task where
  "buy_milk =
     \<lparr>task_id = 1, title = ''Buy milk'', description = Some ''2 litres'', priority = Low,
      status = Pending, created_at = \<lparr>dt_day = 19725, dt_usec = 43200000000\<rparr>,
      due_date = 19732\<rparr>"

definition one_task_app :: app where
  "one_task_app = \<lparr>tasks = [buy_milk], tasks_file = Stored [buy_milk]\<rparr>"

section \<open>Properties\<close>

subsection \<open>Strings\<close>

lemma starts_with_iff: "starts_with n h \<longleftrightarrow> (\<exists>post. h = n @ post)"
  by (induction n h rule: starts_with.induct) auto

text \<open>\<open>is_substring\<close> finds exactly the contiguous occurrences.\<close>

lemma is_substring_iff: "is_substring n h \<longleftrightarrow> (\<exists>pre post. h = pre @ n @ post)"
proof (induction h)
  case Nil
  then show ?case by auto
next
  case (Cons c cs)
  have "(\<exists>pre post. c # cs = pre @ n @ post) \<longleftrightarrow>
        (\<exists>post. c # cs = n @ post) \<or> (\<exists>pre post. cs = pre @ n @ post)"
  proof
    assume "\<exists>pre post. c # cs = pre @ n @ post"
    then obtain pre post where e: "c # cs = pre @ n @ post" by blast
    show "(\<exists>post. c # cs = n @ post) \<or> (\<exists>pre post. cs = pre @ n @ post)"
    proof (cases pre)
      case Nil
      with e show ?thesis by auto
    next
      case (Cons p ps)
      with e have "cs = ps @ n @ post" by simp
      then show ?thesis by blast
    qed
  next
    assume "(\<exists>post. c # cs = n @ post) \<or> (\<exists>pre post. cs = pre @ n @ post)"
    then show "\<exists>pre post. c # cs = pre @ n @ post"
    proof
      assume "\<exists>post. c # cs = n @ post"
      then obtain post where "c # cs = [] @ n @ post" by auto
      then show ?thesis by blast
    next
      assume "\<exists>pre post. cs = pre @ n @ post"
      then obtain pre post where "cs = pre @ n @ post" by blast
      then have "c # cs = (c # pre) @ n @ post" by simp
      then show ?thesis by blast
    qed
  qed
  with Cons show ?case by (simp add: starts_with_iff)
qed

lemma is_substring_lower: "is_substring (lower needle) (lower s) = ci_contains needle s"
  by (simp add: is_substring_iff ci_contains_def)


subsection \<open>Loading\<close>

text \<open>
  C9. \<open>load_tasks\<close> never raises to its caller: whatever the state of the file, it
  returns a list; the empty list when the file is missing, cannot be opened or does not
  parse, and the parsed list otherwise.
\<close>

theorem load_tasks_never_raises:
  "(\<exists>ts. load_tasks f = Inr ts) \<and>
   load_tasks NoFile = Inr [] \<and>
   load_tasks Unreadable = Inr [] \<and>
   load_tasks Malformed = Inr [] \<and>
   load_tasks (Stored ts0) = Inr ts0"
  by (cases f) (simp_all add: load_tasks_def json_load_def os_path_exists_def)

subsection \<open>Filtering and searching\<close>

lemma filter_spec_cases:
  "filter_spec kind today ts =
     (case kind of
        F_all \<Rightarrow> ts
      | F_pending \<Rightarrow> [t \<leftarrow> ts. status t = Pending]
      | F_completed \<Rightarrow> [t \<leftarrow> ts. status t = Completed]
      | F_high \<Rightarrow> [t \<leftarrow> ts. priority t = High]
      | F_today \<Rightarrow> [t \<leftarrow> ts. due_date t = today])"
  by (cases kind) (simp_all add: filter_spec_def)

text \<open>
  C6. For every filter kind, search text and task sequence, the view computed by
  \<open>filter_tasks\<close> is the specification's search applied to the specification's filter
  of the tasks: the filter comes first and the search runs on its result only.
\<close>

theorem filter_tasks_is_search_of_filter:
  "filter_tasks kind needle now ts = search_spec needle (filter_spec kind (dt_day now) ts)"
  by (simp add: filter_tasks_def search_spec_def filter_spec_cases is_substring_lower Let_def)


subsection \<open>Adding\<close>



lemma add_task_id_is_count:
  "strip ttl \<noteq> [] \<Longrightarrow>
   map task_id (tasks (snd (add_task ttl dsc p now s))) =
     map task_id (tasks s) @ [int (length (tasks s)) + 1]"
  by (simp add: add_task_def save_tasks_def Let_def)

text \<open>
  C1. The new id is the number of tasks plus one, not one more than the largest id:
  adding two tasks, deleting the task with id 1 and adding a third leaves two tasks that
  both carry the id 2, where the claim has the ids 2 and 3.
\<close>

theorem add_after_delete_repeats_id:
  "map task_id (tasks (run noon
      [Add ''Buy milk'' [] Low, Add ''Ship release'' [] High, Delete 1, Add ''New'' [] Medium]))
     = [2, 2] \<and>
   \<not> distinct (map task_id (tasks (run noon
      [Add ''Buy milk'' [] Low, Add ''Ship release'' [] High, Delete 1, Add ''New'' [] Medium])))"
  by (simp add: run_def fresh_app_def add_task_def delete_task_def save_tasks_def
        strip_def is_space_def Let_def)

subsection \<open>Changing the status\<close>

lemma modify_first_absent:
  "tid \<notin> task_id ` set ts \<Longrightarrow> modify_first tid f ts = ts"
  by (induction ts) auto

lemma modify_first_present:
  "tid \<in> task_id ` set ts \<Longrightarrow>
   \<exists>pre t post. ts = pre @ t # post \<and> tid \<notin> task_id ` set pre \<and> task_id t = tid \<and>
     modify_first tid f ts = pre @ f t # post"
proof (induction ts)
  case Nil
  then show ?case by simp
next
  case (Cons a ts)
  show ?case
  proof (cases "task_id a = tid")
    case True
    then have "a # ts = [] @ a # ts \<and> tid \<notin> task_id ` set [] \<and> task_id a = tid \<and>
       modify_first tid f (a # ts) = [] @ f a # ts" by simp
    then show ?thesis by blast
  next
    case False
    with Cons.prems have "tid \<in> task_id ` set ts" by auto
    from Cons.IH[OF this] obtain pre t post where
      h: "ts = pre @ t # post" "tid \<notin> task_id ` set pre" "task_id t = tid"
         "modify_first tid f ts = pre @ f t # post" by blast
    with False have "a # ts = (a # pre) @ t # post \<and> tid \<notin> task_id ` set (a # pre) \<and>
       task_id t = tid \<and> modify_first tid f (a # ts) = (a # pre) @ f t # post" by auto
    then show ?thesis by blast
  qed
qed

text \<open>
  C5, as amended. \<open>toggle_task_status\<close> never ends with an error and always writes
  the collection to the file. For an id that no task carries the collection is unchanged;
  for an id that is present, the first task carrying it gets the status completed or
  pending as asked, and every other task is unchanged.
\<close>

theorem toggle_task_status_first_match:
  "\<exists>ts'. toggle_task_status tid completed s =
            (Inr (if completed then ''Task completed!'' else ''Task reopened!''),
             \<lparr>tasks = ts', tasks_file = Stored ts'\<rparr>) \<and>
     (tid \<notin> task_id ` set (tasks s) \<longrightarrow> ts' = tasks s) \<and>
     (tid \<in> task_id ` set (tasks s) \<longrightarrow>
        (\<exists>pre t post. tasks s = pre @ t # post \<and> tid \<notin> task_id ` set pre \<and> task_id t = tid \<and>
           ts' = pre @ t\<lparr>status := (if completed then Completed else Pending)\<rparr> # post))"
proof -
  let ?f = "\<lambda>t. t\<lparr>status := (if completed then Completed else Pending)\<rparr>"
  let ?ts = "modify_first tid ?f (tasks s)"
  have run: "toggle_task_status tid completed s =
            (Inr (if completed then ''Task completed!'' else ''Task reopened!''),
             \<lparr>tasks = ?ts, tasks_file = Stored ?ts\<rparr>)"
    by (simp add: toggle_task_status_def save_tasks_def Let_def)
  have absent: "tid \<notin> task_id ` set (tasks s) \<longrightarrow> ?ts = tasks s"
    by (simp add: modify_first_absent)
  have present: "tid \<in> task_id ` set (tasks s) \<longrightarrow>
        (\<exists>pre t post. tasks s = pre @ t # post \<and> tid \<notin> task_id ` set pre \<and> task_id t = tid \<and>
           ?ts = pre @ ?f t # post)"
    using modify_first_present[of tid "tasks s" ?f] by blast
  from run absent present show ?thesis by blast
qed

theorem toggle_task_status_witness:
  "7 \<notin> task_id ` set (tasks one_task_app) \<and> 1 \<in> task_id ` set (tasks one_task_app) \<and>
   toggle_task_status 7 True one_task_app = (Inr ''Task completed!'', one_task_app) \<and>
   toggle_task_status 1 True one_task_app =
     (Inr ''Task completed!'',
      \<lparr>tasks = [buy_milk\<lparr>status := Completed\<rparr>],
       tasks_file = Stored [buy_milk\<lparr>status := Completed\<rparr>]\<rparr>)"
  using toggle_task_status_first_match[of 7 True one_task_app]
        toggle_task_status_first_match[of 1 True one_task_app]
  by (simp add: toggle_task_status_def save_tasks_def one_task_app_def buy_milk_def)

text \<open>
  The claim as stated fails: for the id 7, which no task carries, the callback reports
  "Task completed!" and no error.
\<close>

theorem toggle_absent_id_counterexample:
  "7 \<notin> task_id ` set (tasks one_task_app) \<and>
   toggle_task_status 7 True one_task_app = (Inr ''Task completed!'', one_task_app) \<and>
   fst (toggle_task_status 7 True one_task_app) \<noteq> Inl NotFoundError"
  by (simp add: toggle_task_status_def save_tasks_def one_task_app_def buy_milk_def)

subsection \<open>Editing\<close>

text \<open>
  C2. A title of blanks only makes \<open>save_changes\<close> warn and return without writing
  the file, but the three fields of the task in \<open>self.tasks\<close> have been assigned by
  then: the title of the stored task is empty, and the next callback that saves writes
  it to the file.
\<close>

theorem edit_task_blank_title_mutates:
  "edit_task 1 ''   '' ''x'' High one_task_app =
     (Inl ValidationError,
      \<lparr>tasks = [buy_milk\<lparr>title := [], description := Some ''x'', priority := High\<rparr>],
       tasks_file = Stored [buy_milk]\<rparr>) \<and>
   tasks_file (snd (toggle_task_status 1 True (snd (edit_task 1 ''   '' ''x'' High one_task_app)))) =
     Stored [buy_milk\<lparr>title := [], description := Some ''x'', priority := High, status := Completed\<rparr>]"
  by (simp add: edit_task_def toggle_task_status_def save_tasks_def strip_def is_space_def
      one_task_app_def buy_milk_def Let_def)

subsection \<open>Deleting\<close>

lemma count_removed:
  "length [t \<leftarrow> ts. task_id t \<noteq> tid] + count_list (map task_id ts) tid = length ts"
  by (induction ts) auto

text \<open>
  C4, as amended. For an id that no task carries, a confirmed \<open>delete_task\<close> reports
  "Task deleted!", leaves the collection as it is and writes it to the file.
\<close>

theorem delete_task_absent_id:
  "tid \<notin> task_id ` set (tasks s) \<Longrightarrow>
   delete_task tid True s = (Inr ''Task deleted!'', \<lparr>tasks = tasks s, tasks_file = Stored (tasks s)\<rparr>)"
proof -
  assume "tid \<notin> task_id ` set (tasks s)"
  then have "[t \<leftarrow> tasks s. task_id t \<noteq> tid] = tasks s"
    by (auto simp: filter_id_conv)
  then show ?thesis by (simp add: delete_task_def save_tasks_def)
qed

theorem delete_task_absent_id_witness:
  "7 \<notin> task_id ` set (tasks one_task_app) \<and>
   delete_task 7 True one_task_app = (Inr ''Task deleted!'', one_task_app)"
  using delete_task_absent_id[of 7 one_task_app]
  by (simp add: one_task_app_def buy_milk_def)

text \<open>
  The claim as stated fails: deleting the id 7, which no task carries, ends without an
  error.
\<close>

theorem delete_absent_id_counterexample:
  "7 \<notin> task_id ` set (tasks one_task_app) \<and>
   fst (delete_task 7 True one_task_app) \<noteq> Inl NotFoundError \<and>
   snd (delete_task 7 True one_task_app) = one_task_app"
  by (simp add: delete_task_def save_tasks_def one_task_app_def buy_milk_def)

text \<open>
  C10. One confirmed \<open>delete_task\<close> removes every task carrying the id, however many
  there are: the rest is kept in order, no task with that id remains, and the collection
  shrinks by the number of tasks that carried it. Such collections arise: after three
  additions, the deletion of the id 1 and one more addition, two tasks carry the id 3, and
  deleting 3 removes both.
\<close>

theorem delete_task_removes_every_match:
  "tasks (snd (delete_task tid True s)) = [t \<leftarrow> tasks s. task_id t \<noteq> tid] \<and>
   tid \<notin> task_id ` set (tasks (snd (delete_task tid True s))) \<and>
   length (tasks (snd (delete_task tid True s))) + count_list (map task_id (tasks s)) tid
     = length (tasks s) \<and>
   map task_id (tasks (run now
     [Add ''a'' [] Low, Add ''b'' [] Low, Add ''c'' [] Low, Delete 1, Add ''d'' [] Low])) = [2, 3, 3] \<and>
   map task_id (tasks (run now
     [Add ''a'' [] Low, Add ''b'' [] Low, Add ''c'' [] Low, Delete 1, Add ''d'' [] Low, Delete 3])) = [2]"
proof -
  have a: "tasks (snd (delete_task tid True s)) = [t \<leftarrow> tasks s. task_id t \<noteq> tid]"
    by (simp add: delete_task_def save_tasks_def)
  have b: "tid \<notin> task_id ` set [t \<leftarrow> tasks s. task_id t \<noteq> tid]" by auto
  have c: "map task_id (tasks (run now
     [Add ''a'' [] Low, Add ''b'' [] Low, Add ''c'' [] Low, Delete 1, Add ''d'' [] Low])) = [2, 3, 3]"
    by (simp add: run_def fresh_app_def add_task_def delete_task_def save_tasks_def
        strip_def is_space_def Let_def)
  have d: "map task_id (tasks (run now
     [Add ''a'' [] Low, Add ''b'' [] Low, Add ''c'' [] Low, Delete 1, Add ''d'' [] Low, Delete 3])) = [2]"
    by (simp add: run_def fresh_app_def add_task_def delete_task_def save_tasks_def
        strip_def is_space_def Let_def)
  from a b c d count_removed[of tid "tasks s"] show ?thesis by simp
qed

subsection \<open>The due-date line\<close>

lemma days_until_at_midnight:
  "dt_usec now = 0 \<Longrightarrow> days_until t now = due_date t - dt_day now"
proof -
  assume z: "dt_usec now = 0"
  have "due_date t * 86400000000 - dt_day now * 86400000000
        = (due_date t - dt_day now) * 86400000000"
    by (simp add: algebra_simps)
  with z show ?thesis by (simp add: days_until_def)
qed

lemma days_until_after_midnight:
  assumes "0 < dt_usec now" "dt_usec now < 86400000000"
  shows "days_until t now = due_date t - dt_day now - 1"
proof -
  let ?u = "int (dt_usec now)"
  have "due_date t * 86400000000 - (dt_day now * 86400000000 + ?u)
        = (due_date t - dt_day now - 1) * 86400000000 + (86400000000 - ?u)"
    by (simp add: algebra_simps)
  moreover have "0 \<le> 86400000000 - ?u" "86400000000 - ?u < 86400000000"
    using assms by simp_all
  ultimately show ?thesis
    by (simp add: days_until_def)
qed

text \<open>
  C3. The day count is taken against the clock, not against the calendar date, so after
  midnight it is one less than the difference of the dates: at noon a task due on the
  same day is shown as overdue by one day, and the task due on the next day is the one
  marked "Today".
\<close>

theorem due_today_shown_overdue:
  "due_date buy_milk = dt_day noon \<and>
   due_line buy_milk noon = (Overdue_by 1, Danger) \<and>
   due_line (buy_milk\<lparr>due_date := dt_day noon + 1\<rparr>) noon = (Today_note, Warning)"
  by (simp add: due_line_def days_until_def buy_milk_def noon_def)

end
